theory Spec2Isabelle
  imports Complex_Main "HOL-Library.Sublist"
begin

section \<open>makeReal: data model\<close>

text \<open>
  The development follows \<^verbatim>\<open>src/app/makeReal.tsx\<close>. JavaScript strings are lists of
  code units (\<^typ>\<open>string\<close>), JavaScript numbers used as coordinates are \<^typ>\<open>real\<close>
  (rounding is not modelled), a thrown exception is the \<open>Inl\<close> value of a result, and
  every function that touches the canvas returns its result together with the state it
  leaves behind, so that a \<^verbatim>\<open>catch\<close> block continues from the state at the throw.
  An \<^verbatim>\<open>await\<close> is a call that returns: one invocation is followed from its start to
  its end, and nobody else changes the canvas in between.
\<close>

type_synonym TLShapeId = string

text \<open>
  The canvas's shapes are a union discriminated by the \<^verbatim>\<open>type\<close> tag. The four
  text-bearing kinds carry \<^verbatim>\<open>props.text\<close>, the response kind carries
  \<^verbatim>\<open>props.html\<close>; every other kind is \<open>OtherShape\<close>.
\<close>

datatype shape_props =
    TextShape string
  | GeoShape string
  | ArrowShape string
  | NoteShape string
  | ResponseShape string
  | OtherShape

record shape =
  shape_x :: real
  shape_y :: real
  props :: shape_props

record Box =
  box_x :: real
  box_y :: real
  maxX :: real
  maxY :: real

datatype MessagePart =
    Image_url string string
  | Text string

datatype MessageBody =
    Plain string
  | Parts "MessagePart list"

record GPT4VMessage =
  role :: string
  content :: MessageBody

record GPT4VCompletionRequest =
  model :: string
  max_tokens :: nat
  temperature :: real
  messages :: "GPT4VMessage list"

text \<open>
  A completion response: the optional \<^verbatim>\<open>error.message\<close> and the
  \<^verbatim>\<open>message.content\<close> of every element of \<^verbatim>\<open>choices\<close>.
\<close>

record GPT4VCompletionResponse =
  error :: "string option"
  choices :: "string list"

text \<open>
  \<open>Error m\<close> is \<^verbatim>\<open>new Error(m)\<close>; \<open>TypeError\<close> is what the engine raises on
  reading a property of \<^verbatim>\<open>undefined\<close>; \<open>TransportFailure\<close> is whatever the remote
  call rejects with.
\<close>

datatype js_error =
    Error string
  | TypeError
  | TransportFailure string

text \<open>The effects of one invocation, in the order in which they happen.\<close>

datatype event =
    Created TLShapeId shape
  | Updated TLShapeId string
  | Deleted TLShapeId
  | Fetched "string option" GPT4VCompletionRequest

record editor =
  store :: "TLShapeId \<rightharpoonup> shape"
  selectedShapeIds :: "TLShapeId list"
  history :: "event list"

text \<open>
  Modelled from the spec: the collaborators that the source imports and that are not part
  of the repository (section 6). The canvas reports the selection's bounding box and
  enumerates the selected shapes with their descendants (in the iteration order of the
  collection it returns) and allocates identifiers; the capture collaborator is an opaque
  function from the canvas to an image reference; the remote endpoint either rejects or
  answers with a response; the key typed into the page is optional.
\<close>

record env =
  getSelectionPageBounds :: "editor \<Rightarrow> Box option"
  getShapeAndDescendantIds :: "editor \<Rightarrow> TLShapeId list \<Rightarrow> TLShapeId list"
  createShapeId :: "editor \<Rightarrow> TLShapeId"
  getSelectionAsImageDataUrl :: "editor \<Rightarrow> string"
  apiKeyFromDangerousApiKeyInput :: "string option"
  fetchFromOpenAi :: "string option \<Rightarrow> GPT4VCompletionRequest \<Rightarrow> js_error + GPT4VCompletionResponse"

section \<open>The canvas operations used by the source\<close>

text \<open>
  Modelled from the spec: reading a shape by id, reading the selection, and creating,
  updating and deleting a response artifact (section 6). A shape created without props
  starts with empty html; updating an absent shape changes nothing.
\<close>

definition getShape :: "editor \<Rightarrow> TLShapeId \<Rightarrow> shape option" where
  "getShape ed i = store ed i"

definition getSelectedShapes :: "editor \<Rightarrow> shape list" where
  "getSelectedShapes ed = List.map_filter (getShape ed) (selectedShapeIds ed)"

definition createShape :: "editor \<Rightarrow> TLShapeId \<Rightarrow> real \<Rightarrow> real \<Rightarrow> editor" where
  "createShape ed i px py =
     (let sh = \<lparr>shape_x = px, shape_y = py, props = ResponseShape []\<rparr>
      in ed\<lparr>store := (store ed)(i \<mapsto> sh), history := history ed @ [Created i sh]\<rparr>)"

definition updateShape :: "editor \<Rightarrow> TLShapeId \<Rightarrow> string \<Rightarrow> editor" where
  "updateShape ed i html =
     (case store ed i of
        None \<Rightarrow> ed\<lparr>history := history ed @ [Updated i html]\<rparr>
      | Some sh \<Rightarrow>
          ed\<lparr>store := (store ed)(i \<mapsto> sh\<lparr>props := ResponseShape html\<rparr>),
             history := history ed @ [Updated i html]\<rparr>)"

definition deleteShape :: "editor \<Rightarrow> TLShapeId \<Rightarrow> editor" where
  "deleteShape ed i =
     ed\<lparr>store := (store ed)(i := None),
        selectedShapeIds := filter (\<lambda>j. j \<noteq> i) (selectedShapeIds ed),
        history := history ed @ [Deleted i]\<rparr>"

section \<open>JavaScript string primitives\<close>

text \<open>
  \<^verbatim>\<open>String.prototype.indexOf\<close> with one argument: the least index at which the
  pattern starts, or \<open>-1\<close>.
\<close>

fun findIndex :: "string \<Rightarrow> string \<Rightarrow> nat option" where
  "findIndex pat [] = (if pat = [] then Some 0 else None)"
| "findIndex pat (c # cs) =
     (if prefix pat (c # cs) then Some 0 else map_option Suc (findIndex pat cs))"

definition indexOf :: "string \<Rightarrow> string \<Rightarrow> int" where
  "indexOf s pat = (case findIndex pat s of None \<Rightarrow> - 1 | Some i \<Rightarrow> int i)"

text \<open>
  \<^verbatim>\<open>String.prototype.slice(start, end)\<close>: a negative index counts from the end, both
  indices are clamped to the string, and an empty range gives the empty string.
\<close>

definition slice :: "string \<Rightarrow> int \<Rightarrow> int \<Rightarrow> string" where
  "slice s start fin =
     (let len = int (length s);
          lo = (if start < 0 then max (len + start) 0 else min start len);
          hi = (if fin < 0 then max (len + fin) 0 else min fin len)
      in take (nat (hi - lo)) (drop (nat lo) s))"

text \<open>\<^verbatim>\<open>Array.prototype.join\<close> on an array of strings.\<close>

fun join :: "string list \<Rightarrow> string \<Rightarrow> string" where
  "join [] sep = []"
| "join [t] sep = t"
| "join (t # u # ts) sep = t @ sep @ join (u # ts) sep"

section \<open>makeReal.tsx\<close>

definition systemPrompt :: string where
  "systemPrompt =
     ''You are a generative artist who specializes in p5.js.\<newline>'' @
     ''A user will provide you with an input image. \<newline>'' @
     ''You will return a single html file that uses p5.js code to draw an generative artwork that looks exactly the same as the input image. \<newline>'' @
     ''Use any complex methods to draw out the art that look as similar to the input image as possible, matching style, shape, colors and strokes.\<newline>'' @
     ''User might also include text in the sketch, use it as a extra description guidance.\<newline>'' @
     ''Do not load any images in the resulting code.\<newline>'' @
     ''They may also provide you with the code file of a previous art that they want you to iterate from.\<newline>'' @
     ''Carry out any changes they request from you.\<newline>'' @
     ''Respond ONLY with the contents of the html file.''"

definition doctypeMarker :: string where
  "doctypeMarker = ''<!DOCTYPE html>''"

definition closingMarker :: string where
  "closingMarker = ''</html>''"

text \<open>The callback of \<^verbatim>\<open>map\<close> in \<^verbatim>\<open>getSelectionAsText\<close>; \<open>None\<close> is \<^verbatim>\<open>null\<close>.\<close>

definition textOfShapeId :: "editor \<Rightarrow> TLShapeId \<Rightarrow> string option" where
  "textOfShapeId ed i =
     (case getShape ed i of
        None \<Rightarrow> None
      | Some sh \<Rightarrow>
          (case props sh of
             TextShape t \<Rightarrow> Some t
           | GeoShape t \<Rightarrow> Some t
           | ArrowShape t \<Rightarrow> Some t
           | NoteShape t \<Rightarrow> Some t
           | _ \<Rightarrow> None))"

definition getSelectionAsText :: "env \<Rightarrow> editor \<Rightarrow> string" where
  "getSelectionAsText e ed =
     (let selectedShapeDescendantIds = getShapeAndDescendantIds e ed (selectedShapeIds ed);
          texts = filter (\<lambda>v. v \<noteq> None \<and> v \<noteq> Some [])
                    (map (textOfShapeId ed) selectedShapeDescendantIds)
      in join (map the texts) [CHR 0x0A])"

definition isResponse :: "shape \<Rightarrow> bool" where
  "isResponse sh = (case props sh of ResponseShape _ \<Rightarrow> True | _ \<Rightarrow> False)"

definition htmlOf :: "shape \<Rightarrow> string" where
  "htmlOf sh = (case props sh of ResponseShape h \<Rightarrow> h | _ \<Rightarrow> [])"

definition getContentOfPreviousResponse :: "editor \<Rightarrow> js_error + string option" where
  "getContentOfPreviousResponse ed =
     (let previousResponses = filter isResponse (getSelectedShapes ed)
      in if length previousResponses = 0 then Inr None
         else if length previousResponses > 1
           then Inl (Error ''You can only have one previous response selected'')
         else Inr (Some (htmlOf (previousResponses ! 0))))"

text \<open>A string or \<^verbatim>\<open>null\<close> is truthy when it is a non-empty string.\<close>

definition truthy :: "string option \<Rightarrow> bool" where
  "truthy v = (case v of None \<Rightarrow> False | Some t \<Rightarrow> t \<noteq> [])"

definition buildPromptForOpenAi :: "env \<Rightarrow> editor \<Rightarrow> js_error + GPT4VMessage list" where
  "buildPromptForOpenAi e ed =
     (let userMessages =
            [Image_url (getSelectionAsImageDataUrl e ed) ''high'',
             Text ''Turn this into a single html file using tailwind.'',
             Text (getSelectionAsText e ed)]
      in case getContentOfPreviousResponse ed of
           Inl err \<Rightarrow> Inl err
         | Inr previousResponseContent \<Rightarrow>
             (let userMessages' =
                    (if truthy previousResponseContent
                     then userMessages @ [Text (the previousResponseContent)]
                     else userMessages)
              in Inr [\<lparr>role = ''system'', content = Plain systemPrompt\<rparr>,
                      \<lparr>role = ''user'', content = Parts userMessages'\<rparr>]))"

text \<open>Lines 112 to 115 of \<^verbatim>\<open>populateResponseShape\<close>: the html cut out of the reply.\<close>

definition extractHtml :: "string \<Rightarrow> string" where
  "extractHtml message =
     (let start = indexOf message doctypeMarker;
          fin = indexOf message closingMarker
      in slice message start (fin + int (length closingMarker)))"

definition populateResponseShape ::
  "editor \<Rightarrow> TLShapeId \<Rightarrow> GPT4VCompletionResponse \<Rightarrow> (js_error + unit) \<times> editor" where
  "populateResponseShape ed responseShapeId openAiResponse =
     (case error openAiResponse of
        Some m \<Rightarrow> (Inl (Error m), ed)
      | None \<Rightarrow>
          (case choices openAiResponse of
             [] \<Rightarrow> (Inl TypeError, ed)
           | message # _ \<Rightarrow> (Inr (), updateShape ed responseShapeId (extractHtml message))))"

definition makeEmptyResponseShape :: "env \<Rightarrow> editor \<Rightarrow> (js_error + TLShapeId) \<times> editor" where
  "makeEmptyResponseShape e ed =
     (case getSelectionPageBounds e ed of
        None \<Rightarrow> (Inl (Error ''No selection bounds''), ed)
      | Some selectionBounds \<Rightarrow>
          (let newShapeId = createShapeId e ed
           in (Inr newShapeId,
               createShape ed newShapeId (maxX selectionBounds + 60) (box_y selectionBounds))))"

definition requestFor :: "GPT4VMessage list \<Rightarrow> GPT4VCompletionRequest" where
  "requestFor prompt =
     \<lparr>model = ''gpt-4-vision-preview'', max_tokens = 4096, temperature = 0, messages = prompt\<rparr>"

text \<open>
  The body of the \<^verbatim>\<open>try\<close> block: the remote call, recorded in the history, and
  the population of the placeholder.
\<close>

definition tryBody ::
  "env \<Rightarrow> editor \<Rightarrow> TLShapeId \<Rightarrow> GPT4VMessage list \<Rightarrow> (js_error + unit) \<times> editor" where
  "tryBody e ed responseShapeId prompt =
     (let key = apiKeyFromDangerousApiKeyInput e;
          ed' = ed\<lparr>history := history ed @ [Fetched key (requestFor prompt)]\<rparr>
      in case fetchFromOpenAi e key (requestFor prompt) of
           Inl err \<Rightarrow> (Inl err, ed')
         | Inr openAiResponse \<Rightarrow> populateResponseShape ed' responseShapeId openAiResponse)"

definition makeReal :: "env \<Rightarrow> editor \<Rightarrow> (js_error + unit) \<times> editor" where
  "makeReal e ed =
     (let selectedShapes = getSelectedShapes ed
      in if length selectedShapes = 0
         then (Inl (Error ''First select something to make real.''), ed)
         else
           (case buildPromptForOpenAi e ed of
              Inl err \<Rightarrow> (Inl err, ed)
            | Inr prompt \<Rightarrow>
                (case makeEmptyResponseShape e ed of
                   (Inl err, ed1) \<Rightarrow> (Inl err, ed1)
                 | (Inr responseShapeId, ed1) \<Rightarrow>
                     (case tryBody e ed1 responseShapeId prompt of
                        (Inl err, ed2) \<Rightarrow> (Inl err, deleteShape ed2 responseShapeId)
                      | (Inr u, ed2) \<Rightarrow> (Inr u, ed2)))))"

section \<open>Observing one invocation\<close>

text \<open>The events that one invocation of \<open>makeReal\<close> appends to the history.\<close>

definition effects :: "env \<Rightarrow> editor \<Rightarrow> event list" where
  "effects e ed = drop (length (history ed)) (history (snd (makeReal e ed)))"

section \<open>The notions the specification uses\<close>

text \<open>
  A pattern occurs at an index of a string when the string, from that index on, starts
  with the pattern.
\<close>

definition occurs_at :: "string \<Rightarrow> string \<Rightarrow> nat \<Rightarrow> bool" where
  "occurs_at pat s i \<longleftrightarrow> i \<le> length s \<and> prefix pat (drop i s)"

text \<open>
  The extraction as section 4.3 of the specification words it: the first doctype marker,
  then the first closing marker at or after it, and the text from the one through the
  other. Where a marker is missing the specification leaves the result open.
\<close>

definition extract_spec :: "string \<Rightarrow> string option" where
  "extract_spec message =
     (case findIndex doctypeMarker message of
        None \<Rightarrow> None
      | Some i \<Rightarrow>
          (case findIndex closingMarker (drop i message) of
             None \<Rightarrow> None
           | Some d \<Rightarrow> Some (take (d + length closingMarker) (drop i message))))"

text \<open>
  The well-formed spans of a reply: a doctype marker at \<open>i\<close> and a closing marker at
  \<open>j\<close>, at or after it. The text of a span runs from the start of the one marker
  through the end of the other.
\<close>

definition html_spans :: "string \<Rightarrow> (nat \<times> nat) list" where
  "html_spans s =
     filter (\<lambda>(i, j). i \<le> j)
       (List.product (filter (occurs_at doctypeMarker s) [0..<Suc (length s)])
                     (filter (occurs_at closingMarker s) [0..<Suc (length s)]))"

definition span_text :: "string \<Rightarrow> nat \<Rightarrow> nat \<Rightarrow> string" where
  "span_text s i j = take (j + length closingMarker - i) (drop i s)"

text \<open>
  The gathered text as section 4.1 words it: the non-empty texts of the allow-listed
  descendants, in traversal order, one per line.
\<close>

definition allowListed :: "shape \<Rightarrow> bool" where
  "allowListed sh =
     (case props sh of
        TextShape _ \<Rightarrow> True | GeoShape _ \<Rightarrow> True | ArrowShape _ \<Rightarrow> True | NoteShape _ \<Rightarrow> True
      | _ \<Rightarrow> False)"

definition textOf :: "shape \<Rightarrow> string" where
  "textOf sh =
     (case props sh of
        TextShape t \<Rightarrow> t | GeoShape t \<Rightarrow> t | ArrowShape t \<Rightarrow> t | NoteShape t \<Rightarrow> t
      | _ \<Rightarrow> [])"

definition contributions :: "env \<Rightarrow> editor \<Rightarrow> string list" where
  "contributions e ed =
     concat (map (\<lambda>i. case store ed i of
                         None \<Rightarrow> []
                       | Some sh \<Rightarrow> if allowListed sh \<and> textOf sh \<noteq> [] then [textOf sh] else [])
                 (getShapeAndDescendantIds e ed (selectedShapeIds ed)))"

definition lines_joined :: "string list \<Rightarrow> string" where
  "lines_joined ts =
     (if ts = [] then [] else concat (map (\<lambda>t. t @ [CHR 0x0A]) (butlast ts)) @ last ts)"

section \<open>Concrete canvases and collaborators\<close>

definition demoBounds :: Box where
  "demoBounds = \<lparr>box_x = 20, box_y = 50, maxX = 100, maxY = 90\<rparr>"

definition demoEnv :: "js_error + GPT4VCompletionResponse \<Rightarrow> env" where
  "demoEnv reply =
     \<lparr>getSelectionPageBounds = (\<lambda>ed. Some demoBounds),
      getShapeAndDescendantIds = (\<lambda>ed ids. ids),
      createShapeId = (\<lambda>ed. ''shape:new''),
      getSelectionAsImageDataUrl = (\<lambda>ed. ''data:image/png;base64,AAAA''),
      apiKeyFromDangerousApiKeyInput = None,
      fetchFromOpenAi = (\<lambda>k r. reply)\<rparr>"

definition canvasOf :: "(TLShapeId \<times> shape_props) list \<Rightarrow> editor" where
  "canvasOf xs =
     \<lparr>store = map_of (map (\<lambda>(i, p). (i, \<lparr>shape_x = 0, shape_y = 0, props = p\<rparr>)) xs),
      selectedShapeIds = map fst xs,
      history = []\<rparr>"

definition twoResponses :: editor where
  "twoResponses =
     canvasOf [(''shape:a'', ResponseShape ''<p>one</p>''), (''shape:b'', ResponseShape ''<p>two</p>'')]"

definition oneResponse :: editor where
  "oneResponse =
     canvasOf [(''shape:t'', TextShape ''make it blue''), (''shape:a'', ResponseShape ''<p>one</p>'')]"

definition noResponse :: editor where
  "noResponse = canvasOf [(''shape:t'', TextShape ''Hello''), (''shape:g'', GeoShape [])]"

definition emptyResponse :: editor where
  "emptyResponse = canvasOf [(''shape:t'', TextShape ''Hello''), (''shape:r'', ResponseShape [])]"

definition okReply :: "js_error + GPT4VCompletionResponse" where
  "okReply = Inr \<lparr>error = None, choices = [''Sure! <!DOCTYPE html><html></html> Enjoy.'']\<rparr>"

definition errorReply :: "js_error + GPT4VCompletionResponse" where
  "errorReply = Inr \<lparr>error = Some ''Rate limit reached'', choices = []\<rparr>"

definition strayReply :: "js_error + GPT4VCompletionResponse" where
  "strayReply = Inr \<lparr>error = None, choices = [''</html><!DOCTYPE html></html>'']\<rparr>"

definition mixedCanvas :: editor where
  "mixedCanvas =
     canvasOf [(''shape:t'', TextShape ''Hello''), (''shape:g'', GeoShape []),
               (''shape:r'', ResponseShape ''<p>x</p>''), (''shape:d'', OtherShape),
               (''shape:n'', NoteShape ''World'')]"

section \<open>Facts about the canvas operations and the prompt\<close>

lemma getContent_none:
  "filter isResponse (getSelectedShapes ed) = [] \<Longrightarrow> getContentOfPreviousResponse ed = Inr None"
  by (simp add: getContentOfPreviousResponse_def)

lemma getContent_one:
  "filter isResponse (getSelectedShapes ed) = [r] \<Longrightarrow>
   getContentOfPreviousResponse ed = Inr (Some (htmlOf r))"
  by (simp add: getContentOfPreviousResponse_def)

lemma getContent_many:
  "2 \<le> length (filter isResponse (getSelectedShapes ed)) \<Longrightarrow>
   getContentOfPreviousResponse ed = Inl (Error ''You can only have one previous response selected'')"
  by (auto simp add: getContentOfPreviousResponse_def Let_def)

lemma buildPrompt_many:
  "2 \<le> length (filter isResponse (getSelectedShapes ed)) \<Longrightarrow>
   buildPromptForOpenAi e ed = Inl (Error ''You can only have one previous response selected'')"
  by (simp add: buildPromptForOpenAi_def getContent_many)

lemma buildPrompt_Inr_iff:
  "(\<exists>p. buildPromptForOpenAi e ed = Inr p) \<longleftrightarrow> length (filter isResponse (getSelectedShapes ed)) \<le> 1"
  by (auto simp add: buildPromptForOpenAi_def getContentOfPreviousResponse_def Let_def split: sum.splits if_splits)

lemma buildPrompt_Inr:
  assumes "buildPromptForOpenAi e ed = Inr p"
  shows "\<exists>v. getContentOfPreviousResponse ed = Inr v \<and>
     p = [\<lparr>role = ''system'', content = Plain systemPrompt\<rparr>,
          \<lparr>role = ''user'', content = Parts
             ([Image_url (getSelectionAsImageDataUrl e ed) ''high'',
               Text ''Turn this into a single html file using tailwind.'',
               Text (getSelectionAsText e ed)] @
              (if truthy v then [Text (the v)] else []))\<rparr>]"
  using assms
  by (cases "getContentOfPreviousResponse ed") (auto simp add: buildPromptForOpenAi_def Let_def)

lemma makeEmpty_Some:
  "getSelectionPageBounds e ed = Some b \<Longrightarrow>
   makeEmptyResponseShape e ed =
     (Inr (createShapeId e ed), createShape ed (createShapeId e ed) (maxX b + 60) (box_y b))"
  by (simp add: makeEmptyResponseShape_def Let_def)

lemma makeEmpty_None:
  "getSelectionPageBounds e ed = None \<Longrightarrow>
   makeEmptyResponseShape e ed = (Inl (Error ''No selection bounds''), ed)"
  by (simp add: makeEmptyResponseShape_def)

lemma history_createShape:
  "history (createShape ed i px py) =
     history ed @ [Created i \<lparr>shape_x = px, shape_y = py, props = ResponseShape []\<rparr>]"
  by (simp add: createShape_def Let_def)

lemma store_createShape:
  "store (createShape ed i px py) i = Some \<lparr>shape_x = px, shape_y = py, props = ResponseShape []\<rparr>"
  by (simp add: createShape_def Let_def)

lemma history_updateShape: "history (updateShape ed i h) = history ed @ [Updated i h]"
  by (simp add: updateShape_def split: option.splits)

lemma history_deleteShape: "history (deleteShape ed i) = history ed @ [Deleted i]"
  by (simp add: deleteShape_def)

lemma store_deleteShape: "store (deleteShape ed i) i = None"
  by (simp add: deleteShape_def)

lemma store_updateShape:
  "store ed i = Some sh \<Longrightarrow> store (updateShape ed i h) i = Some (sh\<lparr>props := ResponseShape h\<rparr>)"
  by (simp add: updateShape_def)

section \<open>The control flow of makeReal\<close>

text \<open>The outcomes of the try body, one per branch.\<close>

lemma tryBody_cases:
  "tryBody e ed i p =
     (let k = apiKeyFromDangerousApiKeyInput e;
          ed' = ed\<lparr>history := history ed @ [Fetched k (requestFor p)]\<rparr>
      in case fetchFromOpenAi e k (requestFor p) of
           Inl err \<Rightarrow> (Inl err, ed')
         | Inr r \<Rightarrow> (case error r of
              Some m \<Rightarrow> (Inl (Error m), ed')
            | None \<Rightarrow> (case choices r of
                 [] \<Rightarrow> (Inl TypeError, ed')
               | c # _ \<Rightarrow> (Inr (), updateShape ed' i (extractHtml c)))))"
  by (simp add: tryBody_def populateResponseShape_def Let_def split: sum.splits)

lemma history_tryBody_fail:
  "tryBody e ed i p = (Inl err, ed2) \<Longrightarrow>
   ed2 = ed\<lparr>history := history ed @ [Fetched (apiKeyFromDangerousApiKeyInput e) (requestFor p)]\<rparr>"
  by (auto simp add: tryBody_cases Let_def split: sum.splits option.splits list.splits)

lemma history_tryBody_ok:
  "tryBody e ed i p = (Inr u, ed2) \<Longrightarrow>
   \<exists>h. history ed2 = history ed @ [Fetched (apiKeyFromDangerousApiKeyInput e) (requestFor p), Updated i h]"
  by (auto simp add: tryBody_cases Let_def history_updateShape split: sum.splits option.splits list.splits)

lemma tryBody_fail_iff:
  "fst (tryBody e ed i p) = Inl err \<longleftrightarrow>
     (let k = apiKeyFromDangerousApiKeyInput e in
      fetchFromOpenAi e k (requestFor p) = Inl err \<or>
      (\<exists>r m. fetchFromOpenAi e k (requestFor p) = Inr r \<and> error r = Some m \<and> err = Error m) \<or>
      (\<exists>r. fetchFromOpenAi e k (requestFor p) = Inr r \<and> error r = None \<and> choices r = [] \<and>
           err = TypeError))"
  by (auto simp add: tryBody_cases Let_def split: sum.splits option.splits list.splits)

lemma tryBody_fail_state:
  "fst (tryBody e ed i p) = Inl err \<Longrightarrow>
   snd (tryBody e ed i p) =
     ed\<lparr>history := history ed @ [Fetched (apiKeyFromDangerousApiKeyInput e) (requestFor p)]\<rparr>"
  using history_tryBody_fail [of e ed i p err "snd (tryBody e ed i p)"]
  by (metis prod.collapse)

lemma makeReal_reached:
  assumes "getSelectedShapes ed \<noteq> []" "buildPromptForOpenAi e ed = Inr p"
    "getSelectionPageBounds e ed = Some b"
  shows "makeReal e ed =
     (let i = createShapeId e ed;
          r = tryBody e (createShape ed i (maxX b + 60) (box_y b)) i p
      in case fst r of Inl err \<Rightarrow> (Inl err, deleteShape (snd r) i) | Inr u \<Rightarrow> (Inr u, snd r))"
  using assms
  by (simp add: makeReal_def makeEmpty_Some Let_def split: prod.splits sum.splits)

lemma makeReal_rolled:
  assumes "getSelectedShapes ed \<noteq> []" "buildPromptForOpenAi e ed = Inr p"
    "getSelectionPageBounds e ed = Some b"
    "fst (tryBody e (createShape ed (createShapeId e ed) (maxX b + 60) (box_y b)) (createShapeId e ed) p) = Inl err"
  shows "makeReal e ed =
     (Inl err,
      deleteShape
        ((createShape ed (createShapeId e ed) (maxX b + 60) (box_y b))
           \<lparr>history := history ed @
              [Created (createShapeId e ed) \<lparr>shape_x = maxX b + 60, shape_y = box_y b, props = ResponseShape []\<rparr>,
               Fetched (apiKeyFromDangerousApiKeyInput e) (requestFor p)]\<rparr>)
        (createShapeId e ed))"
  using assms(4) tryBody_fail_state [OF assms(4)]
  by (simp add: makeReal_reached [OF assms(1-3)] Let_def history_createShape)

lemma makeReal_fst:
  assumes "getSelectedShapes ed \<noteq> []" "buildPromptForOpenAi e ed = Inr p"
    "getSelectionPageBounds e ed = Some b"
  shows "fst (makeReal e ed) =
     fst (tryBody e (createShape ed (createShapeId e ed) (maxX b + 60) (box_y b)) (createShapeId e ed) p)"
  by (simp add: makeReal_reached [OF assms] Let_def split: sum.splits)

lemma makeReal_committed:
  assumes "getSelectedShapes ed \<noteq> []" "buildPromptForOpenAi e ed = Inr p"
    "getSelectionPageBounds e ed = Some b"
    "fetchFromOpenAi e (apiKeyFromDangerousApiKeyInput e) (requestFor p) = Inr resp"
    "error resp = None" "choices resp = message # rest"
  shows "fst (makeReal e ed) = Inr () \<and>
     store (snd (makeReal e ed)) (createShapeId e ed) =
       Some \<lparr>shape_x = maxX b + 60, shape_y = box_y b, props = ResponseShape (extractHtml message)\<rparr> \<and>
     effects e ed =
       [Created (createShapeId e ed) \<lparr>shape_x = maxX b + 60, shape_y = box_y b, props = ResponseShape []\<rparr>,
        Fetched (apiKeyFromDangerousApiKeyInput e) (requestFor p),
        Updated (createShapeId e ed) (extractHtml message)]"
proof -
  let ?i = "createShapeId e ed"
  let ?ed1 = "createShape ed ?i (maxX b + 60) (box_y b)"
  let ?ed2 = "?ed1\<lparr>history := history ?ed1 @ [Fetched (apiKeyFromDangerousApiKeyInput e) (requestFor p)]\<rparr>"
  have t: "tryBody e ?ed1 ?i p = (Inr (), updateShape ?ed2 ?i (extractHtml message))"
    using assms(4-6) by (simp add: tryBody_cases Let_def)
  have m: "makeReal e ed = (Inr (), updateShape ?ed2 ?i (extractHtml message))"
    by (simp add: makeReal_reached [OF assms(1-3)] Let_def t)
  have s: "store ?ed2 ?i = Some \<lparr>shape_x = maxX b + 60, shape_y = box_y b, props = ResponseShape []\<rparr>"
    by (simp add: store_createShape)
  have st: "store (snd (makeReal e ed)) ?i =
      Some \<lparr>shape_x = maxX b + 60, shape_y = box_y b, props = ResponseShape (extractHtml message)\<rparr>"
    unfolding m snd_conv using store_updateShape [OF s, of "extractHtml message"] by simp
  have ev: "effects e ed =
       [Created ?i \<lparr>shape_x = maxX b + 60, shape_y = box_y b, props = ResponseShape []\<rparr>,
        Fetched (apiKeyFromDangerousApiKeyInput e) (requestFor p),
        Updated ?i (extractHtml message)]"
    by (simp add: effects_def m history_updateShape history_createShape)
  from m st ev show ?thesis by simp
qed

lemma effects_early:
  "snd (makeReal e ed) = ed \<Longrightarrow> effects e ed = []"
  by (simp add: effects_def)

lemma effects_reached:
  assumes "getSelectedShapes ed \<noteq> []" "buildPromptForOpenAi e ed = Inr p"
    "getSelectionPageBounds e ed = Some b"
  shows "\<exists>last. effects e ed =
     [Created (createShapeId e ed) \<lparr>shape_x = maxX b + 60, shape_y = box_y b, props = ResponseShape []\<rparr>,
      Fetched (apiKeyFromDangerousApiKeyInput e) (requestFor p), last] \<and>
     ((\<exists>err. fst (makeReal e ed) = Inl err) \<and> last = Deleted (createShapeId e ed) \<or>
      fst (makeReal e ed) = Inr () \<and> (\<exists>h. last = Updated (createShapeId e ed) h))"
proof -
  let ?i = "createShapeId e ed"
  let ?ed1 = "createShape ed ?i (maxX b + 60) (box_y b)"
  obtain res ed2 where r: "tryBody e ?ed1 ?i p = (res, ed2)" by (cases "tryBody e ?ed1 ?i p")
  show ?thesis
  proof (cases res)
    case (Inl err)
    with r have "ed2 = ?ed1\<lparr>history := history ?ed1 @ [Fetched (apiKeyFromDangerousApiKeyInput e) (requestFor p)]\<rparr>"
      using history_tryBody_fail by blast
    then show ?thesis using r Inl
      by (simp add: effects_def makeReal_reached[OF assms] Let_def history_deleteShape history_createShape)
  next
    case (Inr u)
    with r obtain h where "history ed2 = history ?ed1 @ [Fetched (apiKeyFromDangerousApiKeyInput e) (requestFor p), Updated ?i h]"
      using history_tryBody_ok by blast
    then show ?thesis using r Inr
      by (simp add: effects_def makeReal_reached[OF assms] Let_def history_createShape)
  qed
qed

lemma makeReal_not_reached:
  "getSelectedShapes ed = [] \<or> (\<exists>err. buildPromptForOpenAi e ed = Inl err) \<or> getSelectionPageBounds e ed = None
   \<Longrightarrow> snd (makeReal e ed) = ed"
  by (auto simp add: makeReal_def makeEmpty_None Let_def split: sum.splits)

lemma effects_nonempty:
  assumes "ev \<in> set (effects e ed)"
  shows "getSelectedShapes ed \<noteq> [] \<and> (\<exists>p. buildPromptForOpenAi e ed = Inr p) \<and>
         (\<exists>b. getSelectionPageBounds e ed = Some b)"
proof -
  have "effects e ed \<noteq> []" using assms by auto
  then have "snd (makeReal e ed) \<noteq> ed" using effects_early by blast
  then have "\<not> (getSelectedShapes ed = [] \<or> (\<exists>err. buildPromptForOpenAi e ed = Inl err) \<or> getSelectionPageBounds e ed = None)"
    using makeReal_not_reached by blast
  then show ?thesis
    by (metis sum.exhaust option.exhaust)
qed

lemma effects_Created:
  assumes "Created i sh \<in> set (effects e ed)"
  shows "\<exists>p b. getSelectedShapes ed \<noteq> [] \<and> buildPromptForOpenAi e ed = Inr p \<and>
     getSelectionPageBounds e ed = Some b \<and> i = createShapeId e ed \<and>
     sh = \<lparr>shape_x = maxX b + 60, shape_y = box_y b, props = ResponseShape []\<rparr>"
proof -
  from effects_nonempty [OF assms] obtain p b where
    h: "getSelectedShapes ed \<noteq> []" "buildPromptForOpenAi e ed = Inr p"
       "getSelectionPageBounds e ed = Some b" by blast
  from effects_reached [OF h] assms have
    "i = createShapeId e ed \<and> sh = \<lparr>shape_x = maxX b + 60, shape_y = box_y b, props = ResponseShape []\<rparr>"
    by auto
  with h show ?thesis by blast
qed

lemma effects_Fetched:
  assumes "Fetched k req \<in> set (effects e ed)"
  shows "\<exists>p b. getSelectedShapes ed \<noteq> [] \<and> buildPromptForOpenAi e ed = Inr p \<and>
     getSelectionPageBounds e ed = Some b \<and> k = apiKeyFromDangerousApiKeyInput e \<and>
     req = requestFor p"
proof -
  from effects_nonempty [OF assms] obtain p b where
    h: "getSelectedShapes ed \<noteq> []" "buildPromptForOpenAi e ed = Inr p"
       "getSelectionPageBounds e ed = Some b" by blast
  from effects_reached [OF h] assms have
    "k = apiKeyFromDangerousApiKeyInput e \<and> req = requestFor p"
    by auto
  with h show ?thesis by blast
qed

section \<open>Searching and slicing strings\<close>

lemma occurs_at_Nil: "occurs_at pat [] k \<longleftrightarrow> pat = [] \<and> k = 0"
  by (auto simp add: occurs_at_def)

lemma occurs_at_0: "occurs_at pat s 0 \<longleftrightarrow> prefix pat s"
  by (simp add: occurs_at_def)

lemma occurs_at_Suc: "occurs_at pat (c # cs) (Suc k) \<longleftrightarrow> occurs_at pat cs k"
  by (simp add: occurs_at_def)

lemma findIndex_Some:
  "findIndex pat s = Some i \<Longrightarrow> occurs_at pat s i \<and> (\<forall>k<i. \<not> occurs_at pat s k)"
proof (induction s arbitrary: i)
  case Nil
  then show ?case by (simp add: occurs_at_Nil split: if_splits)
next
  case (Cons c cs)
  show ?case
  proof (cases "prefix pat (c # cs)")
    case True
    with Cons.prems show ?thesis by (simp add: occurs_at_0)
  next
    case False
    with Cons.prems obtain i' where i': "findIndex pat cs = Some i'" "i = Suc i'" by auto
    from Cons.IH [OF i'(1)] have ih: "occurs_at pat cs i'" "\<forall>k<i'. \<not> occurs_at pat cs k" by auto
    have "\<not> occurs_at pat (c # cs) k" if "k < i" for k
    proof (cases k)
      case 0
      with False show ?thesis by (simp add: occurs_at_0)
    next
      case (Suc k')
      with that i'(2) ih(2) show ?thesis by (simp add: occurs_at_Suc)
    qed
    with ih(1) i'(2) show ?thesis by (simp add: occurs_at_Suc)
  qed
qed

lemma findIndex_None: "findIndex pat s = None \<Longrightarrow> \<not> occurs_at pat s k"
proof (induction s arbitrary: k)
  case Nil
  then show ?case by (simp add: occurs_at_Nil split: if_splits)
next
  case (Cons c cs)
  then show ?case
    by (cases k) (auto simp add: occurs_at_0 occurs_at_Suc split: if_splits)
qed

lemma findIndex_first:
  assumes "occurs_at pat s i" and "\<forall>k<i. \<not> occurs_at pat s k"
  shows "findIndex pat s = Some i"
proof (cases "findIndex pat s")
  case None
  with assms(1) show ?thesis using findIndex_None by blast
next
  case (Some i')
  from findIndex_Some [OF Some] have "occurs_at pat s i'" "\<forall>k<i'. \<not> occurs_at pat s k" by auto
  with assms have "i' = i" by (meson linorder_neqE_nat)
  with Some show ?thesis by simp
qed

lemma occurs_at_drop:
  "i \<le> length s \<Longrightarrow> occurs_at pat (drop i s) d \<longleftrightarrow> occurs_at pat s (i + d)"
  by (auto simp add: occurs_at_def add.commute)

lemma occurs_at_length: "occurs_at pat s i \<Longrightarrow> i + length pat \<le> length s"
  by (auto simp add: occurs_at_def dest!: prefix_length_le)

lemma occurs_at_take: "occurs_at pat s i \<Longrightarrow> take (length pat) (drop i s) = pat"
  by (auto simp add: occurs_at_def prefix_def)

lemma slice_nat:
  "i \<le> j \<Longrightarrow> j \<le> length s \<Longrightarrow> slice s (int i) (int j) = take (j - i) (drop i s)"
  by (simp add: slice_def Let_def min_def nat_diff_distrib')

lemma extractHtml_found:
  assumes "findIndex doctypeMarker s = Some i" "findIndex closingMarker s = Some j"
  shows "extractHtml s = slice s (int i) (int (j + length closingMarker))"
  using assms by (simp add: extractHtml_def indexOf_def Let_def)

lemma no_overlap_aux:
  "k < 15 \<Longrightarrow> \<not> prefix closingMarker (drop k doctypeMarker @ r)"
  by (auto simp add: doctypeMarker_def closingMarker_def eval_nat_numeral less_Suc_eq)

lemma marker_no_overlap:
  assumes "occurs_at doctypeMarker s i" "occurs_at closingMarker s j" "i \<le> j"
  shows "i + length doctypeMarker \<le> j"
proof (rule ccontr)
  assume "\<not> i + length doctypeMarker \<le> j"
  then have k: "j - i < 15" by (simp add: doctypeMarker_def)
  from assms(1) obtain r where r: "drop i s = doctypeMarker @ r"
    by (auto simp add: occurs_at_def prefix_def)
  have "drop j s = drop (j - i) (drop i s)" using assms(3) by simp
  also have "\<dots> = drop (j - i) doctypeMarker @ r"
    using k by (simp only: r drop_append) (simp add: doctypeMarker_def)
  finally have "prefix closingMarker (drop (j - i) doctypeMarker @ r)"
    using assms(2) by (simp add: occurs_at_def)
  with no_overlap_aux [OF k] show False by blast
qed

lemma extract_first_markers:
  assumes d: "occurs_at doctypeMarker s i" and d1: "\<forall>k<i. \<not> occurs_at doctypeMarker s k"
    and c: "occurs_at closingMarker s j" and c1: "\<forall>k<j. \<not> occurs_at closingMarker s k"
    and le: "i \<le> j"
  shows "extractHtml s = span_text s i j"
proof -
  have fi: "findIndex doctypeMarker s = Some i" using d d1 by (rule findIndex_first)
  have fj: "findIndex closingMarker s = Some j" using c c1 by (rule findIndex_first)
  have "j + length closingMarker \<le> length s" using c by (rule occurs_at_length)
  then have "slice s (int i) (int (j + length closingMarker)) =
      take (j + length closingMarker - i) (drop i s)"
    using le by (intro slice_nat) simp_all
  then show ?thesis
    by (simp only: extractHtml_found [OF fi fj] span_text_def)
qed

lemma span_text_markers:
  assumes d: "occurs_at doctypeMarker s i" and c: "occurs_at closingMarker s j" and le: "i \<le> j"
  shows "prefix doctypeMarker (span_text s i j) \<and> suffix closingMarker (span_text s i j)"
proof -
  have far: "i + length doctypeMarker \<le> j" using d c le by (rule marker_no_overlap)
  have len: "j + length closingMarker \<le> length s" using c by (rule occurs_at_length)
  from d obtain r where r: "drop i s = doctypeMarker @ r"
    by (auto simp add: occurs_at_def prefix_def)
  have p: "prefix doctypeMarker (span_text s i j)"
    using far by (simp add: span_text_def r)
  have "drop (j - i) (span_text s i j) = take (length closingMarker) (drop j s)"
    using le by (simp add: span_text_def drop_take)
  also have "\<dots> = closingMarker" using c by (rule occurs_at_take)
  finally have "suffix closingMarker (span_text s i j)"
    by (metis suffix_drop)
  with p show ?thesis by simp
qed

lemma extract_spec_first:
  assumes d: "occurs_at doctypeMarker s i" and d1: "\<forall>k<i. \<not> occurs_at doctypeMarker s k"
    and c: "occurs_at closingMarker s j" and c1: "\<forall>k. i \<le> k \<and> k < j \<longrightarrow> \<not> occurs_at closingMarker s k"
    and le: "i \<le> j"
  shows "extract_spec s = Some (span_text s i j)"
proof -
  have fi: "findIndex doctypeMarker s = Some i" using d d1 by (rule findIndex_first)
  have il: "i \<le> length s" using d by (simp add: occurs_at_def)
  have "occurs_at closingMarker (drop i s) (j - i)"
    using c le by (simp add: occurs_at_drop [OF il])
  moreover have "\<forall>k<j - i. \<not> occurs_at closingMarker (drop i s) k"
    using c1 by (simp add: occurs_at_drop [OF il])
  ultimately have fj: "findIndex closingMarker (drop i s) = Some (j - i)"
    by (rule findIndex_first)
  show ?thesis using le by (simp add: extract_spec_def fi fj span_text_def)
qed

lemma set_html_spans:
  "(a, b) \<in> set (html_spans s) \<longleftrightarrow>
     occurs_at doctypeMarker s a \<and> occurs_at closingMarker s b \<and> a \<le> b"
proof -
  have "occurs_at pat s k \<Longrightarrow> k < Suc (length s)" for pat k
    by (simp add: occurs_at_def)
  then show ?thesis
    by (auto simp add: html_spans_def simp del: upt_Suc)
qed

lemma extract_unique_span:
  assumes u: "html_spans s = [(i, j)]" and n: "\<forall>k<i. \<not> occurs_at closingMarker s k"
  shows "extractHtml s = span_text s i j"
proof -
  have mem: "(a, b) \<in> set (html_spans s) \<longleftrightarrow> a = i \<and> b = j" for a b
    by (simp add: u)
  have "(i, j) \<in> set (html_spans s)" by (simp add: u)
  then have d: "occurs_at doctypeMarker s i" and c: "occurs_at closingMarker s j" and le: "i \<le> j"
    by (simp_all add: set_html_spans)
  have d1: "\<forall>k<i. \<not> occurs_at doctypeMarker s k"
  proof (intro allI impI notI)
    fix k assume "k < i" "occurs_at doctypeMarker s k"
    with c le have "(k, j) \<in> set (html_spans s)" by (simp add: set_html_spans)
    with mem \<open>k < i\<close> show False by simp
  qed
  have c1: "\<forall>k<j. \<not> occurs_at closingMarker s k"
  proof (intro allI impI notI)
    fix k assume k: "k < j" "occurs_at closingMarker s k"
    with n have "i \<le> k" by (meson not_le)
    with d k(2) have "(i, k) \<in> set (html_spans s)" by (simp add: set_html_spans)
    with mem k(1) show False by simp
  qed
  from d d1 c c1 le show ?thesis by (rule extract_first_markers)
qed

section \<open>Gathering the text of the selection\<close>

lemma join_lines: "join ts [CHR 0x0A] = lines_joined ts"
  by (induction ts "[CHR 0x0A]" rule: join.induct) (simp_all add: lines_joined_def)

lemma texts_contributions:
  "map the (filter (\<lambda>v. v \<noteq> None \<and> v \<noteq> Some []) (map (textOfShapeId ed) ids)) =
   concat (map (\<lambda>i. case store ed i of
                       None \<Rightarrow> []
                     | Some sh \<Rightarrow> if allowListed sh \<and> textOf sh \<noteq> [] then [textOf sh] else [])
               ids)"
  by (induction ids)
     (auto simp add: textOfShapeId_def getShape_def allowListed_def textOf_def
           split: option.splits shape_props.splits)

lemma contributions_nonempty: "t \<in> set (contributions e ed) \<Longrightarrow> t \<noteq> []"
  by (auto simp add: contributions_def split: option.splits if_splits)

section \<open>The concrete canvases\<close>

lemma selected_twoResponses:
  "getSelectedShapes twoResponses =
     [\<lparr>shape_x = 0, shape_y = 0, props = ResponseShape ''<p>one</p>''\<rparr>,
      \<lparr>shape_x = 0, shape_y = 0, props = ResponseShape ''<p>two</p>''\<rparr>]"
  by (simp add: getSelectedShapes_def getShape_def twoResponses_def canvasOf_def List.map_filter_simps)

lemma selected_oneResponse:
  "getSelectedShapes oneResponse =
     [\<lparr>shape_x = 0, shape_y = 0, props = TextShape ''make it blue''\<rparr>,
      \<lparr>shape_x = 0, shape_y = 0, props = ResponseShape ''<p>one</p>''\<rparr>]"
  by (simp add: getSelectedShapes_def getShape_def oneResponse_def canvasOf_def List.map_filter_simps)

lemma selected_noResponse:
  "getSelectedShapes noResponse =
     [\<lparr>shape_x = 0, shape_y = 0, props = TextShape ''Hello''\<rparr>,
      \<lparr>shape_x = 0, shape_y = 0, props = GeoShape []\<rparr>]"
  by (simp add: getSelectedShapes_def getShape_def noResponse_def canvasOf_def List.map_filter_simps)

lemma selected_emptyResponse:
  "getSelectedShapes emptyResponse =
     [\<lparr>shape_x = 0, shape_y = 0, props = TextShape ''Hello''\<rparr>,
      \<lparr>shape_x = 0, shape_y = 0, props = ResponseShape []\<rparr>]"
  by (simp add: getSelectedShapes_def getShape_def emptyResponse_def canvasOf_def List.map_filter_simps)

lemma text_noResponse: "getSelectionAsText (demoEnv r) noResponse = ''Hello''"
  by (simp add: getSelectionAsText_def demoEnv_def textOfShapeId_def getShape_def
      noResponse_def canvasOf_def)

lemma text_oneResponse: "getSelectionAsText (demoEnv r) oneResponse = ''make it blue''"
  by (simp add: getSelectionAsText_def demoEnv_def textOfShapeId_def getShape_def
      oneResponse_def canvasOf_def)

lemma text_emptyResponse: "getSelectionAsText (demoEnv r) emptyResponse = ''Hello''"
  by (simp add: getSelectionAsText_def demoEnv_def textOfShapeId_def getShape_def
      emptyResponse_def canvasOf_def)

lemma url_demoEnv: "getSelectionAsImageDataUrl (demoEnv r) ed = ''data:image/png;base64,AAAA''"
  by (simp add: demoEnv_def)

lemma bounds_demoEnv: "getSelectionPageBounds (demoEnv r) ed = Some demoBounds"
  by (simp add: demoEnv_def)

lemma newId_demoEnv: "createShapeId (demoEnv r) ed = ''shape:new''"
  by (simp add: demoEnv_def)

lemma prompt_noResponse:
  "buildPromptForOpenAi (demoEnv r) noResponse =
     Inr [\<lparr>role = ''system'', content = Plain systemPrompt\<rparr>,
          \<lparr>role = ''user'', content = Parts
             [Image_url ''data:image/png;base64,AAAA'' ''high'',
              Text ''Turn this into a single html file using tailwind.'',
              Text ''Hello'']\<rparr>]"
  by (simp add: buildPromptForOpenAi_def getContentOfPreviousResponse_def selected_noResponse
      isResponse_def truthy_def url_demoEnv text_noResponse)

lemma prompt_oneResponse:
  "buildPromptForOpenAi (demoEnv r) oneResponse =
     Inr [\<lparr>role = ''system'', content = Plain systemPrompt\<rparr>,
          \<lparr>role = ''user'', content = Parts
             [Image_url ''data:image/png;base64,AAAA'' ''high'',
              Text ''Turn this into a single html file using tailwind.'',
              Text ''make it blue'', Text ''<p>one</p>'']\<rparr>]"
  by (simp add: buildPromptForOpenAi_def getContentOfPreviousResponse_def selected_oneResponse
      isResponse_def htmlOf_def truthy_def url_demoEnv text_oneResponse)

lemma effects_noResponse:
  "\<exists>last. effects (demoEnv r) noResponse =
     [Created ''shape:new'' \<lparr>shape_x = 160, shape_y = 50, props = ResponseShape []\<rparr>,
      Fetched None (requestFor
        [\<lparr>role = ''system'', content = Plain systemPrompt\<rparr>,
          \<lparr>role = ''user'', content = Parts
             [Image_url ''data:image/png;base64,AAAA'' ''high'',
              Text ''Turn this into a single html file using tailwind.'',
              Text ''Hello'']\<rparr>]), last]"
proof -
  have h1: "getSelectedShapes noResponse \<noteq> []" by (simp add: selected_noResponse)
  from effects_reached [OF h1 prompt_noResponse bounds_demoEnv, of r] show ?thesis
    by (auto simp add: newId_demoEnv demoBounds_def demoEnv_def)
qed

lemma effects_oneResponse:
  "\<exists>last. effects (demoEnv r) oneResponse =
     [Created ''shape:new'' \<lparr>shape_x = 160, shape_y = 50, props = ResponseShape []\<rparr>,
      Fetched None (requestFor
        [\<lparr>role = ''system'', content = Plain systemPrompt\<rparr>,
          \<lparr>role = ''user'', content = Parts
             [Image_url ''data:image/png;base64,AAAA'' ''high'',
              Text ''Turn this into a single html file using tailwind.'',
              Text ''make it blue'', Text ''<p>one</p>'']\<rparr>]), last]"
proof -
  have h1: "getSelectedShapes oneResponse \<noteq> []" by (simp add: selected_oneResponse)
  from effects_reached [OF h1 prompt_oneResponse bounds_demoEnv, of r] show ?thesis
    by (auto simp add: newId_demoEnv demoBounds_def demoEnv_def)
qed

section \<open>Failures before the placeholder exists\<close>

text \<open>
  Claim C4. An invocation on an empty selection fails with the error of line 26
  (the specification's EmptySelectionError) and leaves the editor exactly as it was: no
  shape is created, updated or deleted and no request is sent, so the invocation has no
  effects.
\<close>

theorem empty_selection_fails:
  "getSelectedShapes ed = [] \<Longrightarrow>
   makeReal e ed = (Inl (Error ''First select something to make real.''), ed) \<and>
   effects e ed = []"
  by (simp add: makeReal_def effects_def)

theorem empty_selection_fails_witness:
  "getSelectedShapes (canvasOf []) = [] \<and>
   makeReal (demoEnv (Inl (TransportFailure ''offline''))) (canvasOf []) =
     (Inl (Error ''First select something to make real.''), canvasOf []) \<and>
   effects (demoEnv (Inl (TransportFailure ''offline''))) (canvasOf []) = []"
proof -
  have h: "getSelectedShapes (canvasOf []) = []"
    by (simp add: getSelectedShapes_def canvasOf_def List.map_filter_simps)
  show ?thesis
    using h empty_selection_fails [OF h, of "demoEnv (Inl (TransportFailure ''offline''))"]
    by simp
qed

text \<open>
  Claim C5. With two or more response shapes in the direct selection the invocation
  fails with the error of line 150 (the specification's MultiplePriorResponsesError) and
  the editor is returned unchanged: no placeholder was created and nothing else happened.
  With no response shape the lookup yields no prior context, and with exactly one it
  yields that shape's html.
\<close>

theorem multiple_prior_responses:
  "(2 \<le> length (filter isResponse (getSelectedShapes ed)) \<longrightarrow>
      makeReal e ed = (Inl (Error ''You can only have one previous response selected''), ed) \<and>
      effects e ed = []) \<and>
   (filter isResponse (getSelectedShapes ed) = [] \<longrightarrow>
      getContentOfPreviousResponse ed = Inr None) \<and>
   (\<forall>r h. filter isResponse (getSelectedShapes ed) = [r] \<and> props r = ResponseShape h \<longrightarrow>
      getContentOfPreviousResponse ed = Inr (Some h))"
proof (intro conjI impI allI)
  assume m: "2 \<le> length (filter isResponse (getSelectedShapes ed))"
  then have ne: "getSelectedShapes ed \<noteq> []" by auto
  show r: "makeReal e ed = (Inl (Error ''You can only have one previous response selected''), ed)"
    using ne by (simp add: makeReal_def buildPrompt_many [OF m])
  show "effects e ed = []" by (simp add: effects_def r)
next
  assume "filter isResponse (getSelectedShapes ed) = []"
  then show "getContentOfPreviousResponse ed = Inr None" by (rule getContent_none)
next
  fix r h
  assume "filter isResponse (getSelectedShapes ed) = [r] \<and> props r = ResponseShape h"
  then show "getContentOfPreviousResponse ed = Inr (Some h)"
    by (simp add: getContent_one htmlOf_def)
qed

theorem multiple_prior_responses_witness:
  "2 \<le> length (filter isResponse (getSelectedShapes twoResponses)) \<and>
   makeReal (demoEnv (Inl TypeError)) twoResponses =
     (Inl (Error ''You can only have one previous response selected''), twoResponses) \<and>
   filter isResponse (getSelectedShapes noResponse) = [] \<and>
   getContentOfPreviousResponse noResponse = Inr None \<and>
   filter isResponse (getSelectedShapes oneResponse) =
     [\<lparr>shape_x = 0, shape_y = 0, props = ResponseShape ''<p>one</p>''\<rparr>] \<and>
   getContentOfPreviousResponse oneResponse = Inr (Some ''<p>one</p>'')"
proof -
  have h2: "2 \<le> length (filter isResponse (getSelectedShapes twoResponses))"
    by (simp add: selected_twoResponses isResponse_def)
  have h0: "filter isResponse (getSelectedShapes noResponse) = []"
    by (simp add: selected_noResponse isResponse_def)
  have h1: "filter isResponse (getSelectedShapes oneResponse) =
     [\<lparr>shape_x = 0, shape_y = 0, props = ResponseShape ''<p>one</p>''\<rparr>]"
    by (simp add: selected_oneResponse isResponse_def)
  show ?thesis
    using h2 h0 h1
      multiple_prior_responses [of twoResponses "demoEnv (Inl TypeError)"]
      multiple_prior_responses [of noResponse]
      multiple_prior_responses [of oneResponse]
    by simp
qed

section \<open>The placeholder\<close>

text \<open>
  A non-empty selection with reported bounds is not enough for the placeholder to be
  created: with two response shapes selected and bounds \<open>maxX = 100\<close>, \<open>y = 50\<close> the
  prompt cannot be built, the invocation has no effects and no shape carries the new
  identifier.
\<close>

theorem placeholder_not_created_counterexample:
  "getSelectedShapes twoResponses \<noteq> [] \<and>
   getSelectionPageBounds (demoEnv okReply) twoResponses = Some demoBounds \<and>
   maxX demoBounds = 100 \<and> box_y demoBounds = 50 \<and>
   effects (demoEnv okReply) twoResponses = [] \<and>
   store (snd (makeReal (demoEnv okReply) twoResponses)) (createShapeId (demoEnv okReply) twoResponses) = None"
proof -
  have m: "2 \<le> length (filter isResponse (getSelectedShapes twoResponses))"
    by (simp add: selected_twoResponses isResponse_def)
  have ne: "getSelectedShapes twoResponses \<noteq> []" by (simp add: selected_twoResponses)
  have r: "makeReal (demoEnv okReply) twoResponses =
    (Inl (Error ''You can only have one previous response selected''), twoResponses)"
    using ne by (simp add: makeReal_def buildPrompt_many [OF m])
  have s: "store twoResponses ''shape:new'' = None"
    by (simp add: twoResponses_def canvasOf_def)
  show ?thesis
    using ne s by (simp add: r effects_def bounds_demoEnv newId_demoEnv demoBounds_def)
qed

text \<open>
  Claim C9, amended. For every invocation with a non-empty selection whose bounds are
  reported and in which at most one response shape is directly selected, the first effect
  is the creation of the placeholder, with empty html, at
  \<open>(maxX + 60, y)\<close> of the selection bounds, and the request to the remote model comes
  after it. With bounds \<open>maxX = 100\<close>, \<open>y = 50\<close> the placeholder is at \<open>(160, 50)\<close>.
\<close>

theorem placeholder_created_first:
  assumes "getSelectedShapes ed \<noteq> []"
    and "getSelectionPageBounds e ed = Some b"
    and "length (filter isResponse (getSelectedShapes ed)) \<le> 1"
  shows "\<exists>k r last. effects e ed =
      [Created (createShapeId e ed)
         \<lparr>shape_x = maxX b + 60, shape_y = box_y b, props = ResponseShape []\<rparr>,
       Fetched k r, last]"
proof -
  obtain p where "buildPromptForOpenAi e ed = Inr p"
    using assms(3) buildPrompt_Inr_iff by blast
  from effects_reached [OF assms(1) this assms(2)] show ?thesis by blast
qed

theorem placeholder_created_first_witness:
  "getSelectedShapes oneResponse \<noteq> [] \<and>
   getSelectionPageBounds (demoEnv okReply) oneResponse = Some demoBounds \<and>
   maxX demoBounds = 100 \<and> box_y demoBounds = 50 \<and>
   length (filter isResponse (getSelectedShapes oneResponse)) \<le> 1 \<and>
   (\<exists>k r last. effects (demoEnv okReply) oneResponse =
      [Created ''shape:new'' \<lparr>shape_x = 160, shape_y = 50, props = ResponseShape []\<rparr>,
       Fetched k r, last])"
proof -
  have h1: "getSelectedShapes oneResponse \<noteq> []" by (simp add: selected_oneResponse)
  have h2: "getSelectionPageBounds (demoEnv okReply) oneResponse = Some demoBounds"
    by (rule bounds_demoEnv)
  have h3: "length (filter isResponse (getSelectedShapes oneResponse)) \<le> 1"
    by (simp add: selected_oneResponse isResponse_def)
  show ?thesis
    using h1 h2 h3 placeholder_created_first [OF h1 h2 h3]
    by (simp add: newId_demoEnv demoBounds_def)
qed

section \<open>The prompt\<close>

text \<open>
  Claim C7. Every request that an invocation sends carries exactly two messages, the
  system message with the fixed prompt and the user message. The user message starts with
  the image part for the captured selection at detail \<open>high\<close>, the fixed instruction of
  line 76 and the text part with the gathered text, whatever that text is; a fourth text
  part holds the previous response's html when the lookup returned a non-empty html, and
  there is no fourth part otherwise.
\<close>

theorem prompt_sent:
  assumes "Fetched k req \<in> set (effects e ed)"
  shows "\<exists>fourth.
     messages req =
       [\<lparr>role = ''system'', content = Plain systemPrompt\<rparr>,
        \<lparr>role = ''user'', content = Parts
           ([Image_url (getSelectionAsImageDataUrl e ed) ''high'',
             Text ''Turn this into a single html file using tailwind.'',
             Text (getSelectionAsText e ed)] @ fourth)\<rparr>] \<and>
     (\<forall>h. getContentOfPreviousResponse ed = Inr (Some h) \<and> h \<noteq> [] \<longrightarrow> fourth = [Text h]) \<and>
     ((\<forall>h. getContentOfPreviousResponse ed = Inr (Some h) \<longrightarrow> h = []) \<longrightarrow> fourth = [])"
proof -
  from effects_Fetched [OF assms] obtain p where
    p: "buildPromptForOpenAi e ed = Inr p" and req: "req = requestFor p" by blast
  from buildPrompt_Inr [OF p] obtain v where
    v: "getContentOfPreviousResponse ed = Inr v"
    and pv: "p = [\<lparr>role = ''system'', content = Plain systemPrompt\<rparr>,
          \<lparr>role = ''user'', content = Parts
             ([Image_url (getSelectionAsImageDataUrl e ed) ''high'',
               Text ''Turn this into a single html file using tailwind.'',
               Text (getSelectionAsText e ed)] @
              (if truthy v then [Text (the v)] else []))\<rparr>]"
    by blast
  let ?fourth = "if truthy v then [Text (the v)] else []"
  have a: "messages req =
       [\<lparr>role = ''system'', content = Plain systemPrompt\<rparr>,
        \<lparr>role = ''user'', content = Parts
           ([Image_url (getSelectionAsImageDataUrl e ed) ''high'',
             Text ''Turn this into a single html file using tailwind.'',
             Text (getSelectionAsText e ed)] @ ?fourth)\<rparr>]"
    using pv by (simp add: req requestFor_def)
  have b: "\<forall>h. getContentOfPreviousResponse ed = Inr (Some h) \<and> h \<noteq> [] \<longrightarrow> ?fourth = [Text h]"
    using v by (auto simp add: truthy_def)
  have c: "(\<forall>h. getContentOfPreviousResponse ed = Inr (Some h) \<longrightarrow> h = []) \<longrightarrow> ?fourth = []"
    using v by (cases v) (auto simp add: truthy_def)
  from a b c show ?thesis by blast
qed

theorem prompt_sent_witness:
  "Fetched None (requestFor
        [\<lparr>role = ''system'', content = Plain systemPrompt\<rparr>,
          \<lparr>role = ''user'', content = Parts
             [Image_url ''data:image/png;base64,AAAA'' ''high'',
              Text ''Turn this into a single html file using tailwind.'',
              Text ''make it blue'', Text ''<p>one</p>'']\<rparr>])
     \<in> set (effects (demoEnv okReply) oneResponse) \<and>
   getContentOfPreviousResponse oneResponse = Inr (Some ''<p>one</p>'') \<and>
   (\<exists>fourth. messages (requestFor
        [\<lparr>role = ''system'', content = Plain systemPrompt\<rparr>,
          \<lparr>role = ''user'', content = Parts
             [Image_url ''data:image/png;base64,AAAA'' ''high'',
              Text ''Turn this into a single html file using tailwind.'',
              Text ''make it blue'', Text ''<p>one</p>'']\<rparr>]) =
       [\<lparr>role = ''system'', content = Plain systemPrompt\<rparr>,
        \<lparr>role = ''user'', content = Parts
           ([Image_url ''data:image/png;base64,AAAA'' ''high'',
             Text ''Turn this into a single html file using tailwind.'',
             Text ''make it blue''] @ fourth)\<rparr>] \<and> fourth = [Text ''<p>one</p>''])"
proof -
  let ?req = "requestFor
        [\<lparr>role = ''system'', content = Plain systemPrompt\<rparr>,
          \<lparr>role = ''user'', content = Parts
             [Image_url ''data:image/png;base64,AAAA'' ''high'',
              Text ''Turn this into a single html file using tailwind.'',
              Text ''make it blue'', Text ''<p>one</p>'']\<rparr>]"
  have h: "Fetched None ?req \<in> set (effects (demoEnv okReply) oneResponse)"
    using effects_oneResponse [of okReply] by auto
  have c: "getContentOfPreviousResponse oneResponse = Inr (Some ''<p>one</p>'')"
    by (simp add: getContentOfPreviousResponse_def selected_oneResponse isResponse_def htmlOf_def)
  from prompt_sent [OF h] obtain fourth where
    a: "messages ?req =
       [\<lparr>role = ''system'', content = Plain systemPrompt\<rparr>,
        \<lparr>role = ''user'', content = Parts
           ([Image_url (getSelectionAsImageDataUrl (demoEnv okReply) oneResponse) ''high'',
             Text ''Turn this into a single html file using tailwind.'',
             Text (getSelectionAsText (demoEnv okReply) oneResponse)] @ fourth)\<rparr>]"
    and b: "\<forall>h. getContentOfPreviousResponse oneResponse = Inr (Some h) \<and> h \<noteq> [] \<longrightarrow> fourth = [Text h]"
    by blast
  from b c have "fourth = [Text ''<p>one</p>'']" by simp
  with a h c show ?thesis by (simp add: url_demoEnv text_oneResponse)
qed

text \<open>
  Claim C10. When the direct selection holds exactly one response shape and its html is
  empty, the lookup succeeds with the empty string, the prompt is built and its user
  message has the three fixed parts only; it is the prompt of any canvas without a
  response shape that has the same captured image and the same gathered text. With
  bounds reported, the invocation goes on to send that three-part prompt.
\<close>

theorem empty_prior_response_omitted:
  assumes "filter isResponse (getSelectedShapes ed) = [r]"
    and "props r = ResponseShape []"
  shows "getContentOfPreviousResponse ed = Inr (Some []) \<and>
     buildPromptForOpenAi e ed =
       Inr [\<lparr>role = ''system'', content = Plain systemPrompt\<rparr>,
            \<lparr>role = ''user'', content = Parts
               [Image_url (getSelectionAsImageDataUrl e ed) ''high'',
                Text ''Turn this into a single html file using tailwind.'',
                Text (getSelectionAsText e ed)]\<rparr>] \<and>
     (\<forall>ed'. filter isResponse (getSelectedShapes ed') = [] \<and>
        getSelectionAsImageDataUrl e ed' = getSelectionAsImageDataUrl e ed \<and>
        getSelectionAsText e ed' = getSelectionAsText e ed \<longrightarrow>
        buildPromptForOpenAi e ed' = buildPromptForOpenAi e ed) \<and>
     (\<forall>b. getSelectionPageBounds e ed = Some b \<longrightarrow>
        (\<exists>c last. effects e ed =
           [c,
            Fetched (apiKeyFromDangerousApiKeyInput e)
              (requestFor
                 [\<lparr>role = ''system'', content = Plain systemPrompt\<rparr>,
                  \<lparr>role = ''user'', content = Parts
                     [Image_url (getSelectionAsImageDataUrl e ed) ''high'',
                      Text ''Turn this into a single html file using tailwind.'',
                      Text (getSelectionAsText e ed)]\<rparr>]),
            last]))"
proof -
  have c: "getContentOfPreviousResponse ed = Inr (Some [])"
    using assms by (simp add: getContent_one htmlOf_def)
  have p: "buildPromptForOpenAi e ed =
       Inr [\<lparr>role = ''system'', content = Plain systemPrompt\<rparr>,
            \<lparr>role = ''user'', content = Parts
               [Image_url (getSelectionAsImageDataUrl e ed) ''high'',
                Text ''Turn this into a single html file using tailwind.'',
                Text (getSelectionAsText e ed)]\<rparr>]"
    by (simp add: buildPromptForOpenAi_def c truthy_def)
  have q: "buildPromptForOpenAi e ed' = buildPromptForOpenAi e ed"
    if "filter isResponse (getSelectedShapes ed') = []"
      "getSelectionAsImageDataUrl e ed' = getSelectionAsImageDataUrl e ed"
      "getSelectionAsText e ed' = getSelectionAsText e ed" for ed'
    using that by (simp add: p) (simp add: buildPromptForOpenAi_def getContent_none truthy_def)
  have ne: "getSelectedShapes ed \<noteq> []" using assms(1) by auto
  have s: "\<exists>c last. effects e ed =
           [c,
            Fetched (apiKeyFromDangerousApiKeyInput e)
              (requestFor
                 [\<lparr>role = ''system'', content = Plain systemPrompt\<rparr>,
                  \<lparr>role = ''user'', content = Parts
                     [Image_url (getSelectionAsImageDataUrl e ed) ''high'',
                      Text ''Turn this into a single html file using tailwind.'',
                      Text (getSelectionAsText e ed)]\<rparr>]),
            last]"
    if "getSelectionPageBounds e ed = Some b" for b
    using effects_reached [OF ne p that] by blast
  from c p q s show ?thesis by blast
qed

theorem empty_prior_response_omitted_witness:
  "filter isResponse (getSelectedShapes emptyResponse) =
     [\<lparr>shape_x = 0, shape_y = 0, props = ResponseShape []\<rparr>] \<and>
   props \<lparr>shape_x = 0, shape_y = 0, props = ResponseShape []\<rparr> = ResponseShape [] \<and>
   filter isResponse (getSelectedShapes noResponse) = [] \<and>
   getSelectionPageBounds (demoEnv okReply) emptyResponse = Some demoBounds \<and>
   buildPromptForOpenAi (demoEnv okReply) emptyResponse =
       Inr [\<lparr>role = ''system'', content = Plain systemPrompt\<rparr>,
            \<lparr>role = ''user'', content = Parts
               [Image_url ''data:image/png;base64,AAAA'' ''high'',
                Text ''Turn this into a single html file using tailwind.'',
                Text ''Hello'']\<rparr>] \<and>
   buildPromptForOpenAi (demoEnv okReply) noResponse =
     buildPromptForOpenAi (demoEnv okReply) emptyResponse \<and>
   (\<exists>c last. effects (demoEnv okReply) emptyResponse =
      [c,
       Fetched None
         (requestFor
            [\<lparr>role = ''system'', content = Plain systemPrompt\<rparr>,
             \<lparr>role = ''user'', content = Parts
                [Image_url ''data:image/png;base64,AAAA'' ''high'',
                 Text ''Turn this into a single html file using tailwind.'',
                 Text ''Hello'']\<rparr>]),
       last])"
proof -
  have h1: "filter isResponse (getSelectedShapes emptyResponse) =
     [\<lparr>shape_x = 0, shape_y = 0, props = ResponseShape []\<rparr>]"
    by (simp add: selected_emptyResponse isResponse_def)
  have h2: "props \<lparr>shape_x = 0, shape_y = 0, props = ResponseShape []\<rparr> = ResponseShape []"
    by simp
  have h3: "filter isResponse (getSelectedShapes noResponse) = []"
    by (simp add: selected_noResponse isResponse_def)
  have h4: "getSelectionPageBounds (demoEnv okReply) emptyResponse = Some demoBounds"
    by (rule bounds_demoEnv)
  have k: "apiKeyFromDangerousApiKeyInput (demoEnv okReply) = None"
    by (simp add: demoEnv_def)
  show ?thesis
    using h1 h2 h3 h4 empty_prior_response_omitted [OF h1 h2, of "demoEnv okReply"]
    by (simp add: url_demoEnv text_emptyResponse text_noResponse k)
qed

section \<open>Rollback\<close>

text \<open>
  Claim C1. Once the placeholder has been created, every error of the try block (a
  rejected remote call, a response with an error field, a response without choices) ends
  the invocation with that same error, in the state in which the placeholder has been
  deleted by its identifier: no shape carries that identifier, and the deletion is the
  last effect. Any failure of such an invocation is of this kind.
\<close>

theorem rollback_atomicity:
  assumes "Created i sh \<in> set (effects e ed)"
  shows "\<exists>p ed1 ed2.
     buildPromptForOpenAi e ed = Inr p \<and>
     makeEmptyResponseShape e ed = (Inr i, ed1) \<and>
     ed2 = ed1\<lparr>history := history ed @
              [Created i sh, Fetched (apiKeyFromDangerousApiKeyInput e) (requestFor p)]\<rparr> \<and>
     store (deleteShape ed2 i) i = None \<and>
     history (deleteShape ed2 i) =
       history ed @ [Created i sh, Fetched (apiKeyFromDangerousApiKeyInput e) (requestFor p), Deleted i] \<and>
     (\<forall>err. fetchFromOpenAi e (apiKeyFromDangerousApiKeyInput e) (requestFor p) = Inl err \<longrightarrow>
        makeReal e ed = (Inl err, deleteShape ed2 i)) \<and>
     (\<forall>r m. fetchFromOpenAi e (apiKeyFromDangerousApiKeyInput e) (requestFor p) = Inr r \<and>
        error r = Some m \<longrightarrow> makeReal e ed = (Inl (Error m), deleteShape ed2 i)) \<and>
     (\<forall>r. fetchFromOpenAi e (apiKeyFromDangerousApiKeyInput e) (requestFor p) = Inr r \<and>
        error r = None \<and> choices r = [] \<longrightarrow> makeReal e ed = (Inl TypeError, deleteShape ed2 i)) \<and>
     (\<forall>err. fst (makeReal e ed) = Inl err \<longrightarrow> makeReal e ed = (Inl err, deleteShape ed2 i))"
proof -
  from effects_Created [OF assms] obtain p b where
    h: "getSelectedShapes ed \<noteq> []" "buildPromptForOpenAi e ed = Inr p"
       "getSelectionPageBounds e ed = Some b"
    and i: "i = createShapeId e ed"
    and sh: "sh = \<lparr>shape_x = maxX b + 60, shape_y = box_y b, props = ResponseShape []\<rparr>"
    by blast
  let ?ed1 = "createShape ed i (maxX b + 60) (box_y b)"
  let ?k = "apiKeyFromDangerousApiKeyInput e"
  let ?ed2 = "?ed1\<lparr>history := history ed @ [Created i sh, Fetched ?k (requestFor p)]\<rparr>"
  have rolled: "makeReal e ed = (Inl err, deleteShape ?ed2 i)"
    if "fst (tryBody e ?ed1 i p) = Inl err" for err
    using makeReal_rolled [OF h] that by (simp add: i sh)
  have a: "makeEmptyResponseShape e ed = (Inr i, ?ed1)"
    by (simp add: makeEmpty_Some [OF h(3)] i)
  have b: "store (deleteShape ?ed2 i) i = None" by (rule store_deleteShape)
  have c: "history (deleteShape ?ed2 i) =
       history ed @ [Created i sh, Fetched ?k (requestFor p), Deleted i]"
    by (simp add: history_deleteShape)
  have d: "\<forall>err. fetchFromOpenAi e ?k (requestFor p) = Inl err \<longrightarrow>
        makeReal e ed = (Inl err, deleteShape ?ed2 i)"
    using rolled by (simp add: tryBody_fail_iff Let_def)
  have e: "\<forall>r m. fetchFromOpenAi e ?k (requestFor p) = Inr r \<and> error r = Some m \<longrightarrow>
        makeReal e ed = (Inl (Error m), deleteShape ?ed2 i)"
    using rolled by (simp add: tryBody_fail_iff Let_def)
  have f: "\<forall>r. fetchFromOpenAi e ?k (requestFor p) = Inr r \<and> error r = None \<and> choices r = [] \<longrightarrow>
        makeReal e ed = (Inl TypeError, deleteShape ?ed2 i)"
    using rolled by (simp add: tryBody_fail_iff Let_def)
  have g: "\<forall>err. fst (makeReal e ed) = Inl err \<longrightarrow> makeReal e ed = (Inl err, deleteShape ?ed2 i)"
    using rolled makeReal_fst [OF h] by (simp add: i)
  from h(2) a b c d e f g show ?thesis by blast
qed

theorem rollback_atomicity_witness:
  "Created ''shape:new'' \<lparr>shape_x = 160, shape_y = 50, props = ResponseShape []\<rparr>
     \<in> set (effects (demoEnv (Inl (TransportFailure ''timeout''))) noResponse) \<and>
   fst (makeReal (demoEnv (Inl (TransportFailure ''timeout''))) noResponse) =
     Inl (TransportFailure ''timeout'') \<and>
   store (snd (makeReal (demoEnv (Inl (TransportFailure ''timeout''))) noResponse)) ''shape:new'' = None"
proof -
  let ?e = "demoEnv (Inl (TransportFailure ''timeout''))"
  let ?sh = "\<lparr>shape_x = 160, shape_y = 50, props = ResponseShape []\<rparr>"
  have h: "Created ''shape:new'' ?sh \<in> set (effects ?e noResponse)"
    using effects_noResponse [of "Inl (TransportFailure ''timeout'')"] by auto
  have f: "fetchFromOpenAi ?e k q = Inl (TransportFailure ''timeout'')" for k q
    by (simp add: demoEnv_def)
  from rollback_atomicity [OF h] obtain p ed1 ed2 where
    s: "store (deleteShape ed2 ''shape:new'') ''shape:new'' = None"
    and m: "\<forall>err. fetchFromOpenAi ?e (apiKeyFromDangerousApiKeyInput ?e) (requestFor p) = Inl err \<longrightarrow>
        makeReal ?e noResponse = (Inl err, deleteShape ed2 ''shape:new'')"
    by blast
  from m f have "makeReal ?e noResponse = (Inl (TransportFailure ''timeout''), deleteShape ed2 ''shape:new'')"
    by blast
  with h s show ?thesis by simp
qed

text \<open>
  Claim C6. When the request was sent and the remote model answered with an error
  field, the invocation fails with \<open>Error\<close> of that error's message, the placeholder is
  deleted and no shape carries its identifier; the effects are the creation, the request
  and the deletion, so no html was committed.
\<close>

theorem remote_error_rolls_back:
  assumes "Fetched k req \<in> set (effects e ed)"
    and "fetchFromOpenAi e k req = Inr resp"
    and "error resp = Some m"
  shows "fst (makeReal e ed) = Inl (Error m) \<and>
     store (snd (makeReal e ed)) (createShapeId e ed) = None \<and>
     (\<exists>sh. effects e ed = [Created (createShapeId e ed) sh, Fetched k req, Deleted (createShapeId e ed)]) \<and>
     (\<forall>i h. Updated i h \<notin> set (effects e ed))"
proof -
  from effects_Fetched [OF assms(1)] obtain p b where
    h: "getSelectedShapes ed \<noteq> []" "buildPromptForOpenAi e ed = Inr p"
       "getSelectionPageBounds e ed = Some b"
    and k: "k = apiKeyFromDangerousApiKeyInput e" and req: "req = requestFor p"
    by blast
  let ?i = "createShapeId e ed"
  have t: "fst (tryBody e (createShape ed ?i (maxX b + 60) (box_y b)) ?i p) = Inl (Error m)"
    using assms(2,3) by (simp add: tryBody_fail_iff Let_def k req)
  have r: "fst (makeReal e ed) = Inl (Error m)"
    using makeReal_fst [OF h] t by simp
  have s: "store (snd (makeReal e ed)) ?i = None"
    by (simp add: makeReal_rolled [OF h t] store_deleteShape)
  from effects_reached [OF h] r have
    ev: "effects e ed =
      [Created ?i \<lparr>shape_x = maxX b + 60, shape_y = box_y b, props = ResponseShape []\<rparr>,
       Fetched k req, Deleted ?i]"
    by (auto simp add: k req)
  from r s ev show ?thesis by simp
qed

theorem remote_error_rolls_back_witness:
  "Fetched None (requestFor
        [\<lparr>role = ''system'', content = Plain systemPrompt\<rparr>,
          \<lparr>role = ''user'', content = Parts
             [Image_url ''data:image/png;base64,AAAA'' ''high'',
              Text ''Turn this into a single html file using tailwind.'',
              Text ''Hello'']\<rparr>]) \<in> set (effects (demoEnv errorReply) noResponse) \<and>
   fst (makeReal (demoEnv errorReply) noResponse) = Inl (Error ''Rate limit reached'') \<and>
   store (snd (makeReal (demoEnv errorReply) noResponse)) ''shape:new'' = None"
proof -
  let ?req = "requestFor
        [\<lparr>role = ''system'', content = Plain systemPrompt\<rparr>,
          \<lparr>role = ''user'', content = Parts
             [Image_url ''data:image/png;base64,AAAA'' ''high'',
              Text ''Turn this into a single html file using tailwind.'',
              Text ''Hello'']\<rparr>]"
  have h: "Fetched None ?req \<in> set (effects (demoEnv errorReply) noResponse)"
    using effects_noResponse [of errorReply] by auto
  have f: "fetchFromOpenAi (demoEnv errorReply) None ?req =
      Inr \<lparr>error = Some ''Rate limit reached'', choices = []\<rparr>"
    by (simp add: demoEnv_def errorReply_def)
  have m: "error \<lparr>error = Some ''Rate limit reached'', choices = []\<rparr> = Some ''Rate limit reached''"
    by simp
  show ?thesis
    using h remote_error_rolls_back [OF h f m] by (simp add: newId_demoEnv)
qed

section \<open>Extraction\<close>

text \<open>
  Claim C2. Extraction is to locate the first doctype marker of the reply, then the
  first closing marker at or after it, and to take the text from the start of the one
  through the end of the other, also when a closing marker precedes the doctype marker.
  The source does not do this: line 114 searches the closing marker from the start of the
  reply. In the reply below the doctype marker is at index 7 and closing markers are at
  indices 0 and 22; the rule gives the document from 7 through the marker at 22, and the
  source, with start 7 and end 0, extracts the empty string.
\<close>

theorem extraction_stray_closing_marker:
  "occurs_at doctypeMarker ''</html><!DOCTYPE html></html>'' 7 \<and>
   occurs_at closingMarker ''</html><!DOCTYPE html></html>'' 0 \<and>
   occurs_at closingMarker ''</html><!DOCTYPE html></html>'' 22 \<and>
   extract_spec ''</html><!DOCTYPE html></html>'' = Some ''<!DOCTYPE html></html>'' \<and>
   extractHtml ''</html><!DOCTYPE html></html>'' = []"
  by code_simp

text \<open>A reply that mentions the closing tag in its prose fails in the same way.\<close>

lemma extraction_stray_marker_in_prose:
  "extract_spec ''I closed the </html> tag. <!DOCTYPE html><html><body>x</body></html>'' =
     Some ''<!DOCTYPE html><html><body>x</body></html>'' \<and>
   extractHtml ''I closed the </html> tag. <!DOCTYPE html><html><body>x</body></html>'' = []"
  by code_simp

text \<open>
  Claim C3. After a successful remote call whose reply contains exactly one well-formed
  span, the html committed to the placeholder is to be that span with both markers. The
  source does not do this on the same reply, for the same reason: the reply has the one
  span from 7 through the marker at 22, the invocation succeeds, and the placeholder is
  left with empty html.
\<close>

theorem committed_html_stray_closing_marker:
  "html_spans ''</html><!DOCTYPE html></html>'' = [(7, 22)] \<and>
   span_text ''</html><!DOCTYPE html></html>'' 7 22 = ''<!DOCTYPE html></html>'' \<and>
   fetchFromOpenAi (demoEnv strayReply) None
     (requestFor
        [\<lparr>role = ''system'', content = Plain systemPrompt\<rparr>,
          \<lparr>role = ''user'', content = Parts
             [Image_url ''data:image/png;base64,AAAA'' ''high'',
              Text ''Turn this into a single html file using tailwind.'',
              Text ''Hello'']\<rparr>]) =
     Inr \<lparr>error = None, choices = [''</html><!DOCTYPE html></html>'']\<rparr> \<and>
   fst (makeReal (demoEnv strayReply) noResponse) = Inr () \<and>
   store (snd (makeReal (demoEnv strayReply) noResponse)) ''shape:new'' =
     Some \<lparr>shape_x = 160, shape_y = 50, props = ResponseShape []\<rparr>"
proof -
  have a: "html_spans ''</html><!DOCTYPE html></html>'' = [(7, 22)]" by code_simp
  have b: "span_text ''</html><!DOCTYPE html></html>'' 7 22 = ''<!DOCTYPE html></html>''"
    by code_simp
  have x: "extractHtml ''</html><!DOCTYPE html></html>'' = []" by code_simp
  have h1: "getSelectedShapes noResponse \<noteq> []" by (simp add: selected_noResponse)
  have f: "fetchFromOpenAi (demoEnv strayReply) k q =
      Inr \<lparr>error = None, choices = [''</html><!DOCTYPE html></html>'']\<rparr>" for k q
    by (simp add: demoEnv_def strayReply_def)
  have e3: "error \<lparr>error = None, choices = [''</html><!DOCTYPE html></html>'']\<rparr> = None"
    by simp
  have e4: "choices \<lparr>error = None, choices = [''</html><!DOCTYPE html></html>'']\<rparr> =
      ''</html><!DOCTYPE html></html>'' # []"
    by simp
  have "fst (makeReal (demoEnv strayReply) noResponse) = Inr () \<and>
     store (snd (makeReal (demoEnv strayReply) noResponse)) ''shape:new'' =
       Some \<lparr>shape_x = 160, shape_y = 50, props = ResponseShape []\<rparr>"
    using makeReal_committed [OF h1 prompt_noResponse bounds_demoEnv f e3 e4]
    by (simp add: x newId_demoEnv demoBounds_def)
  with a b f show ?thesis by simp
qed

text \<open>
  The extent of the defect. On every reply in which no closing marker precedes the first
  doctype marker the source extracts what the rule of the specification gives, and what
  it commits for a reply with exactly one span is that span.
\<close>

lemma extraction_agrees:
  assumes "occurs_at doctypeMarker message i"
    and "\<forall>k<i. \<not> occurs_at doctypeMarker message k"
    and "occurs_at closingMarker message j"
    and "i \<le> j"
    and "\<forall>k<j. i \<le> k \<longrightarrow> \<not> occurs_at closingMarker message k"
    and "\<forall>k<i. \<not> occurs_at closingMarker message k"
  shows "indexOf message doctypeMarker = int i \<and>
     indexOf message closingMarker = int j \<and>
     extractHtml message = take (j + length closingMarker - i) (drop i message) \<and>
     extract_spec message = Some (extractHtml message) \<and>
     prefix doctypeMarker (extractHtml message) \<and>
     suffix closingMarker (extractHtml message)"
proof -
  have c1: "\<forall>k<j. \<not> occurs_at closingMarker message k"
    using assms(5,6) by (meson not_le)
  have fi: "findIndex doctypeMarker message = Some i"
    using assms(1,2) by (rule findIndex_first)
  have fj: "findIndex closingMarker message = Some j"
    using assms(3) c1 by (rule findIndex_first)
  have x: "extractHtml message = span_text message i j"
    using assms(1,2,3) c1 assms(4) by (rule extract_first_markers)
  have y: "extract_spec message = Some (span_text message i j)"
    using assms(1,2,3) _ assms(4) by (rule extract_spec_first) (use assms(5) in simp)
  from span_text_markers [OF assms(1,3,4)] x y fi fj show ?thesis
    by (simp add: indexOf_def) (simp add: span_text_def)
qed

lemma extraction_agrees_example:
  "extractHtml ''Sure! <!DOCTYPE html><html></html> Enjoy.'' = ''<!DOCTYPE html><html></html>'' \<and>
   extract_spec ''Sure! <!DOCTYPE html><html></html> Enjoy.'' = Some ''<!DOCTYPE html><html></html>'' \<and>
   indexOf ''Sure! <!DOCTYPE html><html></html> Enjoy.'' doctypeMarker = 6 \<and>
   indexOf ''Sure! <!DOCTYPE html><html></html> Enjoy.'' closingMarker = 27"
proof -
  let ?m = "''Sure! <!DOCTYPE html><html></html> Enjoy.''"
  have fi: "findIndex doctypeMarker ?m = Some 6" by code_simp
  have fj: "findIndex closingMarker ?m = Some 27" by code_simp
  have h1: "occurs_at doctypeMarker ?m 6" and h2: "\<forall>k<6. \<not> occurs_at doctypeMarker ?m k"
    using findIndex_Some [OF fi] by simp_all
  have h3: "occurs_at closingMarker ?m 27" and c: "\<forall>k<27. \<not> occurs_at closingMarker ?m k"
    using findIndex_Some [OF fj] by simp_all
  have h4: "(6::nat) \<le> 27" by simp
  have h5: "\<forall>k<27. 6 \<le> k \<longrightarrow> \<not> occurs_at closingMarker ?m k" using c by simp
  have h6: "\<forall>k<6. \<not> occurs_at closingMarker ?m k" using c by simp
  have t: "take (27 + length closingMarker - 6) (drop 6 ?m) = ''<!DOCTYPE html><html></html>''"
    by code_simp
  from extraction_agrees [OF h1 h2 h3 h4 h5 h6] t show ?thesis by simp
qed

lemma committed_html_agrees:
  assumes "Fetched k req \<in> set (effects e ed)"
    and "fetchFromOpenAi e k req = Inr resp"
    and "error resp = None"
    and "choices resp = message # rest"
    and "html_spans message = [(i, j)]"
    and "\<forall>n<i. \<not> occurs_at closingMarker message n"
  shows "fst (makeReal e ed) = Inr () \<and>
     (\<exists>b. getSelectionPageBounds e ed = Some b \<and>
        store (snd (makeReal e ed)) (createShapeId e ed) =
          Some \<lparr>shape_x = maxX b + 60, shape_y = box_y b,
                 props = ResponseShape (span_text message i j)\<rparr>) \<and>
     (\<exists>c. effects e ed = [c, Fetched k req, Updated (createShapeId e ed) (span_text message i j)]) \<and>
     prefix doctypeMarker (span_text message i j) \<and>
     suffix closingMarker (span_text message i j)"
proof -
  from effects_Fetched [OF assms(1)] obtain p b where
    h: "getSelectedShapes ed \<noteq> []" "buildPromptForOpenAi e ed = Inr p"
       "getSelectionPageBounds e ed = Some b"
    and k: "k = apiKeyFromDangerousApiKeyInput e" and req: "req = requestFor p"
    by blast
  have f: "fetchFromOpenAi e (apiKeyFromDangerousApiKeyInput e) (requestFor p) = Inr resp"
    using assms(2) by (simp add: k req)
  have x: "extractHtml message = span_text message i j"
    using assms(5,6) by (rule extract_unique_span)
  have "(i, j) \<in> set (html_spans message)" by (simp add: assms(5))
  then have "occurs_at doctypeMarker message i" "occurs_at closingMarker message j" "i \<le> j"
    by (simp_all add: set_html_spans)
  then have mk: "prefix doctypeMarker (span_text message i j) \<and>
      suffix closingMarker (span_text message i j)"
    by (rule span_text_markers)
  from makeReal_committed [OF h f assms(3,4)] mk h(3) show ?thesis
    by (simp add: x k req)
qed

lemma committed_html_agrees_example:
  "html_spans ''Sure! <!DOCTYPE html><html></html> Enjoy.'' = [(6, 27)] \<and>
   fst (makeReal (demoEnv okReply) noResponse) = Inr () \<and>
   store (snd (makeReal (demoEnv okReply) noResponse)) ''shape:new'' =
     Some \<lparr>shape_x = 160, shape_y = 50, props = ResponseShape ''<!DOCTYPE html><html></html>''\<rparr>"
proof -
  let ?m = "''Sure! <!DOCTYPE html><html></html> Enjoy.''"
  let ?req = "requestFor
        [\<lparr>role = ''system'', content = Plain systemPrompt\<rparr>,
          \<lparr>role = ''user'', content = Parts
             [Image_url ''data:image/png;base64,AAAA'' ''high'',
              Text ''Turn this into a single html file using tailwind.'',
              Text ''Hello'']\<rparr>]"
  have h1: "Fetched None ?req \<in> set (effects (demoEnv okReply) noResponse)"
    using effects_noResponse [of okReply] by auto
  have h2: "fetchFromOpenAi (demoEnv okReply) None ?req = Inr \<lparr>error = None, choices = [?m]\<rparr>"
    by (simp add: demoEnv_def okReply_def)
  have h3: "error \<lparr>error = None, choices = [?m]\<rparr> = None" by simp
  have h4: "choices \<lparr>error = None, choices = [?m]\<rparr> = ?m # []" by simp
  have h5: "html_spans ?m = [(6, 27)]" by code_simp
  have fj: "findIndex closingMarker ?m = Some 27" by code_simp
  have h6: "\<forall>n<6. \<not> occurs_at closingMarker ?m n"
    using findIndex_Some [OF fj] by simp
  have t: "span_text ?m 6 27 = ''<!DOCTYPE html><html></html>''" by code_simp
  from committed_html_agrees [OF h1 h2 h3 h4 h5 h6] h5 show ?thesis
    by (simp add: t newId_demoEnv bounds_demoEnv demoBounds_def)
qed

section \<open>The gathered text\<close>

text \<open>
  Claim C8. The gathered text is the list of contributions joined by newlines, where
  the contributions are, in the order of the descendant-id collection, the texts of the
  shapes that exist, are of an allow-listed kind and have a non-empty text. No
  contribution is empty, so no blank line is added; without contributions the text is
  empty; otherwise the text ends with the last contribution and nothing follows it. A
  canvas with a text shape \<open>Hello\<close> and a geometric shape without text has the
  gathered text \<open>Hello\<close>.
\<close>

theorem gathered_text:
  "getSelectionAsText e ed = lines_joined (contributions e ed) \<and>
   (\<forall>t \<in> set (contributions e ed). t \<noteq> []) \<and>
   (contributions e ed = [] \<longrightarrow> getSelectionAsText e ed = []) \<and>
   (contributions e ed \<noteq> [] \<longrightarrow>
      suffix (last (contributions e ed)) (getSelectionAsText e ed) \<and>
      getSelectionAsText e ed \<noteq> [] \<and>
      last (getSelectionAsText e ed) = last (last (contributions e ed)))"
proof -
  have eq: "getSelectionAsText e ed = lines_joined (contributions e ed)"
    unfolding getSelectionAsText_def Let_def join_lines texts_contributions contributions_def ..
  have ne: "\<forall>t \<in> set (contributions e ed). t \<noteq> []"
    using contributions_nonempty by blast
  have em: "contributions e ed = [] \<longrightarrow> getSelectionAsText e ed = []"
    by (simp add: eq lines_joined_def)
  have la: "suffix (last (contributions e ed)) (getSelectionAsText e ed) \<and>
      getSelectionAsText e ed \<noteq> [] \<and>
      last (getSelectionAsText e ed) = last (last (contributions e ed))"
    if c: "contributions e ed \<noteq> []"
  proof -
    have l: "last (contributions e ed) \<noteq> []" using ne c by simp
    from c l show ?thesis by (simp add: eq lines_joined_def suffix_def)
  qed
  from eq ne em la show ?thesis by blast
qed

theorem gathered_text_witness:
  "contributions (demoEnv okReply) noResponse = [''Hello''] \<and>
   getSelectionAsText (demoEnv okReply) noResponse = ''Hello'' \<and>
   contributions (demoEnv okReply) mixedCanvas = [''Hello'', ''World''] \<and>
   getSelectionAsText (demoEnv okReply) mixedCanvas = ''Hello\<newline>World''"
proof -
  have c1: "contributions (demoEnv okReply) noResponse = [''Hello'']"
    by (simp add: contributions_def demoEnv_def noResponse_def canvasOf_def allowListed_def textOf_def)
  have c2: "contributions (demoEnv okReply) mixedCanvas = [''Hello'', ''World'']"
    by (simp add: contributions_def demoEnv_def mixedCanvas_def canvasOf_def allowListed_def textOf_def)
  from gathered_text [of "demoEnv okReply" noResponse] gathered_text [of "demoEnv okReply" mixedCanvas]
    c1 c2 show ?thesis
    by (simp add: lines_joined_def)
qed

end
